theory Spec2Isabelle
  imports Complex_Main "HOL-Library.Char_ord" "HOL-Library.List_Lexorder" "HOL-Library.AList"
begin

section \<open>Tile grid planner\<close>

text \<open>
  The tile loop of \<open>chunk_reproject_to_3857_png\<close> (chunk_reproject_3857_tiles.py).
  Python integers are unbounded, so they are \<open>int\<close>; Python's \<open>//\<close> is floor
  division, which is \<open>div\<close> on \<open>int\<close>. Division by a zero tile size raises in
  Python; the pipeline below makes that a branch of its own, so \<open>n_tiles\<close> is only
  read at a non-zero tile size.
\<close>

definition n_tiles :: "int \<Rightarrow> int \<Rightarrow> int" where
  "n_tiles extent tile_size = (extent + tile_size - 1) div tile_size"

text \<open>
  \<open>for ty in range(n_tiles_y): for tx in range(n_tiles_x)\<close>: the coordinates
  \<open>(ty, tx)\<close> in row-major order. \<open>range n\<close> is \<open>[0..n - 1]\<close>, empty for \<open>n \<le> 0\<close>.
\<close>

definition tile_coords :: "int \<Rightarrow> int \<Rightarrow> (int \<times> int) list" where
  "tile_coords n_tiles_y n_tiles_x =
     concat (map (\<lambda>ty. map (\<lambda>tx. (ty, tx)) [0..n_tiles_x - 1]) [0..n_tiles_y - 1])"

record window =
  col_off :: int
  row_off :: int
  win_w :: int
  win_h :: int

definition tile_window :: "int \<Rightarrow> int \<Rightarrow> int \<Rightarrow> int \<Rightarrow> int \<Rightarrow> window" where
  "tile_window vrt_width vrt_height tile_size ty tx =
     (let c = tx * tile_size;
          r = ty * tile_size;
          w = min tile_size (vrt_width - c);
          h = min tile_size (vrt_height - r)
      in \<lparr>col_off = c, row_off = r, win_w = w, win_h = h\<rparr>)"

text \<open>The guard \<open>if w <= 0 or h <= 0: continue\<close>.\<close>

definition skipped :: "window \<Rightarrow> bool" where
  "skipped win \<longleftrightarrow> win_w win \<le> 0 \<or> win_h win \<le> 0"

text \<open>The pixels \<open>(column, row)\<close> a window covers.\<close>

definition window_pixels :: "window \<Rightarrow> (int \<times> int) set" where
  "window_pixels win =
     {col_off win ..< col_off win + win_w win} \<times> {row_off win ..< row_off win + win_h win}"

subsection \<open>Bounding boxes\<close>

text \<open>
  The virtual raster is created from a target resolution and no explicit transform, so
  its geotransform is north-up: \<open>x = px_w * col + x0\<close>, \<open>y = px_h * row + y0\<close>
  (no rotation terms; \<open>px_h\<close> is negative for a north-up raster). Coordinates are
  floats in the source; they are modelled as reals, so rounding is not part of the model.
  \<open>window_transform\<close> and \<open>array_bounds\<close> are the two raster-library calls of the
  loop body, on such a transform: the first moves the origin to the window's upper left
  corner, the second returns \<open>(west, south, east, north)\<close> of an array of \<open>h\<close> rows and
  \<open>w\<close> columns.
\<close>

record affine =
  px_w :: real
  x0 :: real
  px_h :: real
  y0 :: real

definition apply_affine :: "affine \<Rightarrow> real \<times> real \<Rightarrow> real \<times> real" where
  "apply_affine t p = (px_w t * fst p + x0 t, px_h t * snd p + y0 t)"

definition window_transform :: "affine \<Rightarrow> window \<Rightarrow> affine" where
  "window_transform t win =
     (let p = apply_affine t (real_of_int (col_off win), real_of_int (row_off win))
      in t\<lparr>x0 := fst p, y0 := snd p\<rparr>)"

definition array_bounds :: "int \<Rightarrow> int \<Rightarrow> affine \<Rightarrow> real \<times> real \<times> real \<times> real" where
  "array_bounds h w t =
     (x0 t, y0 t + px_h t * real_of_int h, x0 t + px_w t * real_of_int w, y0 t)"

definition tile_bbox :: "affine \<Rightarrow> window \<Rightarrow> real \<times> real \<times> real \<times> real" where
  "tile_bbox t win = array_bounds (win_h win) (win_w win) (window_transform t win)"

section \<open>Classifier and colorizer\<close>

text \<open>
  A pixel value is a float. The model keeps the three non-finite values apart from the
  finite ones and takes a finite value as a real number: comparisons are exact, as they
  are on floats, and the rounding of \<open>astype("float32")\<close> is not part of the model.
\<close>

datatype fval = Finite real | PosInf | NegInf | NaN

type_synonym rgb = "nat \<times> nat \<times> nat"
type_synonym image = "rgb list list"

text \<open>
  A pixel of the masked array that \<open>vrt.read(1, window=window, masked=True)\<close> returns:
  its value and its mask bit. The reprojection view sets the mask bit where the pixel is
  outside the source coverage or carries the no-data value.
\<close>

type_synonym pixel = "fval \<times> bool"

subsection \<open>\<open>hex_to_rgb\<close>\<close>

definition hex_digit :: "char \<Rightarrow> nat option" where
  "hex_digit c =
     (let n = of_char c :: nat in
      if 48 \<le> n \<and> n \<le> 57 then Some (n - 48)
      else if 97 \<le> n \<and> n \<le> 102 then Some (n - 87)
      else if 65 \<le> n \<and> n \<le> 70 then Some (n - 55)
      else None)"

text \<open>
  \<open>int(s, 16)\<close> on a string of one or two hexadecimal digits, as the slices
  \<open>h[i:i+2]\<close> of a colour are. Any other string is \<open>None\<close> here (Python raises
  ValueError on most of them and accepts a few more spellings, such as a sign; no colour
  of the program is written that way).
\<close>

fun int16 :: "string \<Rightarrow> nat option" where
  "int16 [c] = hex_digit c"
| "int16 [c, d] =
     (case (hex_digit c, hex_digit d) of
        (Some hi, Some lo) \<Rightarrow> Some (16 * hi + lo)
      | _ \<Rightarrow> None)"
| "int16 _ = None"

definition hex_to_rgb :: "string \<Rightarrow> rgb option" where
  "hex_to_rgb h0 =
     (let h = dropWhile (\<lambda>c. c = CHR ''#'') h0 in
      case (int16 (take 2 h), int16 (take 2 (drop 2 h)), int16 (take 2 (drop 4 h))) of
        (Some r, Some g, Some b) \<Rightarrow> Some (r, g, b)
      | _ \<Rightarrow> None)"

definition hex_colors :: "string list" where
  "hex_colors =
     [''#e0f3db'', ''#f7fcf5'', ''#e5f5e0'', ''#c7e9c0'', ''#a1d99b'',
      ''#74c476'', ''#41ab5d'', ''#238b45'', ''#006d2c'', ''#00441b'']"

text \<open>
  \<open>ocean_color = hex_to_rgb("#1f78b4")\<close> and
  \<open>palette = [hex_to_rgb(h) for h in hex_colors]\<close>, written out; the lemmas
  \<open>ocean_color_hex\<close> and \<open>palette_hex\<close> below check the values against \<open>hex_to_rgb\<close>.
\<close>

definition ocean_color :: rgb where
  "ocean_color = (31, 120, 180)"

definition palette :: "rgb list" where
  "palette =
     [(224, 243, 219), (247, 252, 245), (229, 245, 224), (199, 233, 192), (161, 217, 155),
      (116, 196, 118), (65, 171, 93), (35, 139, 69), (0, 109, 44), (0, 68, 27)]"

definition bins :: "real list" where
  "bins = [0, 1/10, 2/10, 3/10, 4/10, 5/10, 6/10, 7/10, 8/10, 9/10, 10001/10000]"

subsection \<open>Element-wise operations of the array library\<close>

definition isfinite :: "fval \<Rightarrow> bool" where
  "isfinite v = (case v of Finite _ \<Rightarrow> True | _ \<Rightarrow> False)"

text \<open>\<open>data_ma.filled(np.nan)\<close>: a masked pixel reads as NaN.\<close>

definition filled_nan :: "pixel \<Rightarrow> fval" where
  "filled_nan p = (if snd p then NaN else fst p)"

text \<open>\<open>np.clip(data, lo, hi)\<close>: NaN stays NaN, the infinities go to the bounds.\<close>

definition clip :: "fval \<Rightarrow> real \<Rightarrow> real \<Rightarrow> fval" where
  "clip v lo hi =
     (case v of
        Finite r \<Rightarrow> Finite (min (max r lo) hi)
      | PosInf \<Rightarrow> Finite hi
      | NegInf \<Rightarrow> Finite (min lo hi)
      | NaN \<Rightarrow> NaN)"

text \<open>\<open>data < t\<close>: every comparison with NaN is false.\<close>

definition less_than :: "fval \<Rightarrow> real \<Rightarrow> bool" where
  "less_than v t = (case v of Finite r \<Rightarrow> r < t | NegInf \<Rightarrow> True | _ \<Rightarrow> False)"

text \<open>
  \<open>np.digitize(x, bins)\<close> for increasing \<open>bins\<close>: the index \<open>i\<close> with
  \<open>bins[i-1] <= x < bins[i]\<close>, which is the number of thresholds that are \<open>\<le> x\<close>
  (\<open>0\<close> below the first, \<open>len(bins)\<close> from the last on; NaN sorts after every number).
\<close>

definition digitize :: "fval \<Rightarrow> real list \<Rightarrow> int" where
  "digitize v bs =
     (case v of
        Finite r \<Rightarrow> int (length (filter (\<lambda>b. b \<le> r) bs))
      | NegInf \<Rightarrow> 0
      | _ \<Rightarrow> int (length bs))"

definition clip_int :: "int \<Rightarrow> int \<Rightarrow> int \<Rightarrow> int" where
  "clip_int i lo hi = min (max i lo) hi"

subsection \<open>Classification of a block\<close>

text \<open>
  The array code of the loop body, for one pixel: the masks and the look-up are
  element-wise, so the block is the map of this function over its pixels.
  \<open>bucket\<close> is \<open>np.clip(np.digitize(data[land_mask], bins) - 1, 0, len(palette) - 1)\<close>.
\<close>

definition nodata_mask :: "pixel \<Rightarrow> bool" where
  "nodata_mask p \<longleftrightarrow> snd p \<or> \<not> isfinite (filled_nan p)"

definition ocean_mask :: "pixel \<Rightarrow> bool" where
  "ocean_mask p \<longleftrightarrow> nodata_mask p \<or> less_than (clip (filled_nan p) 0 1) (1/1000)"

definition bucket :: "fval \<Rightarrow> int" where
  "bucket v = clip_int (digitize v bins - 1) 0 (int (length palette) - 1)"

definition classify_pixel :: "pixel \<Rightarrow> rgb" where
  "classify_pixel p =
     (if ocean_mask p then ocean_color
      else palette ! nat (bucket (clip (filled_nan p) 0 1)))"

definition classify_block :: "pixel list list \<Rightarrow> image" where
  "classify_block rows = map (map classify_pixel) rows"

section \<open>Manifest store\<close>

text \<open>
  Exceptions are values. \<open>LibraryError\<close> stands for whatever the raster library raises
  when it cannot open the source, establish the view or read a window, \<open>SaveError\<close> for a
  failed \<open>Image.save\<close>.
\<close>

datatype error =
  ZeroDivisionError | TypeError | KeyError | ValueError | LibraryError | SaveError

text \<open>
  What \<open>json.load\<close> returns and \<open>json.dump\<close> writes. An object is the list of its
  members in the order of the document, which is the order a Python \<open>dict\<close> keeps and
  \<open>json.dump\<close> writes; \<open>json.load\<close> never returns the same member name twice.
  Numbers are an integer or a float (a real here; the non-standard literals NaN and
  Infinity are outside the model). A manifest file holds either text that
  \<open>json.load\<close> rejects (or that cannot be read at all), or a parsed value.
\<close>

datatype json =
  JNull | JBool bool | JInt int | JFloat real | JStr string
  | JArr "json list" | JObj "(string \<times> json) list"

datatype document = Unparseable | Parsed json

text \<open>
  Dictionary keys. Python compares numbers of all three kinds by value
  (\<open>1 == 1.0 == True\<close>, with equal hashes), so they share one constructor.
\<close>

datatype pykey = KNone | KStr string | KNum real

type_synonym manifest = "(pykey \<times> json) list"

text \<open>\<open>if fn:\<close>\<close>

definition truthy :: "json \<Rightarrow> bool" where
  "truthy j =
     (case j of
        JNull \<Rightarrow> False
      | JBool b \<Rightarrow> b
      | JInt i \<Rightarrow> i \<noteq> 0
      | JFloat r \<Rightarrow> r \<noteq> 0
      | JStr s \<Rightarrow> s \<noteq> []
      | JArr xs \<Rightarrow> xs \<noteq> []
      | JObj kvs \<Rightarrow> kvs \<noteq> [])"

text \<open>The key of \<open>tile_manifest[fn]\<close>; a list or an object is unhashable (TypeError).\<close>

definition to_key :: "json \<Rightarrow> pykey option" where
  "to_key j =
     (case j of
        JNull \<Rightarrow> Some KNone
      | JBool b \<Rightarrow> Some (KNum (if b then 1 else 0))
      | JInt i \<Rightarrow> Some (KNum (real_of_int i))
      | JFloat r \<Rightarrow> Some (KNum r)
      | JStr s \<Rightarrow> Some (KStr s)
      | JArr xs \<Rightarrow> None
      | JObj kvs \<Rightarrow> None)"

text \<open>
  \<open>entry.get("filename")\<close>: \<open>None\<close> here is the AttributeError of a value that is not
  an object; a missing member reads as Python's \<open>None\<close>, which is \<open>JNull\<close>.
\<close>

definition get_filename :: "json \<Rightarrow> json option" where
  "get_filename entry =
     (case entry of
        JObj kvs \<Rightarrow> Some (case map_of kvs ''filename'' of None \<Rightarrow> JNull | Some v \<Rightarrow> v)
      | _ \<Rightarrow> None)"

text \<open>
  The loop \<open>for entry in existing\<close> over a list: the dictionary so far, and whether
  an exception ended the loop. The dictionary is filled in place, so what was stored
  before the exception stays.
\<close>

fun load_entries :: "json list \<Rightarrow> manifest \<Rightarrow> manifest \<times> bool" where
  "load_entries [] m = (m, False)"
| "load_entries (entry # rest) m =
     (case get_filename entry of
        None \<Rightarrow> (m, True)
      | Some fn \<Rightarrow>
          if truthy fn then
            (case to_key fn of
               None \<Rightarrow> (m, True)
             | Some k \<Rightarrow> load_entries rest (AList.update k entry m))
          else load_entries rest m)"

text \<open>
  Iterating the parsed value: a list gives its elements; an object gives its member
  names and a string its characters, and neither has \<open>.get\<close> (AttributeError at the
  first one, none when empty); any other value is not iterable (TypeError).
\<close>

definition load_document :: "json \<Rightarrow> manifest \<times> bool" where
  "load_document existing =
     (case existing of
        JArr xs \<Rightarrow> load_entries xs []
      | JObj kvs \<Rightarrow> ([], kvs \<noteq> [])
      | JStr s \<Rightarrow> ([], s \<noteq> [])
      | _ \<Rightarrow> ([], True))"

text \<open>
  The load at startup: the dictionary, and whether the warning was printed. Every
  exception of the \<open>try\<close> block is caught.
\<close>

definition load_manifest :: "document option \<Rightarrow> manifest \<times> bool" where
  "load_manifest file =
     (case file of
        None \<Rightarrow> ([], False)
      | Some Unparseable \<Rightarrow> ([], True)
      | Some (Parsed existing) \<Rightarrow> load_document existing)"

subsection \<open>Persisting\<close>

text \<open>\<open>e["filename"]\<close>, the sort key.\<close>

definition subscript_filename :: "json \<Rightarrow> error + json" where
  "subscript_filename e =
     (case e of
        JObj kvs \<Rightarrow> (case map_of kvs ''filename'' of None \<Rightarrow> Inl KeyError | Some v \<Rightarrow> Inr v)
      | _ \<Rightarrow> Inl TypeError)"

fun sort_keys :: "json list \<Rightarrow> error + json list" where
  "sort_keys [] = Inr []"
| "sort_keys (e # es) =
     (case subscript_filename e of
        Inl x \<Rightarrow> Inl x
      | Inr v \<Rightarrow> (case sort_keys es of Inl x \<Rightarrow> Inl x | Inr vs \<Rightarrow> Inr (v # vs)))"

definition is_string :: "json \<Rightarrow> bool" where
  "is_string j = (case j of JStr _ \<Rightarrow> True | _ \<Rightarrow> False)"

definition is_number :: "json \<Rightarrow> bool" where
  "is_number j = (case j of JBool _ \<Rightarrow> True | JInt _ \<Rightarrow> True | JFloat _ \<Rightarrow> True | _ \<Rightarrow> False)"

definition filename_str :: "json \<Rightarrow> string" where
  "filename_str e = (case subscript_filename e of Inr (JStr s) \<Rightarrow> s | _ \<Rightarrow> [])"

definition filename_num :: "json \<Rightarrow> real" where
  "filename_num e =
     (case subscript_filename e of
        Inr (JBool b) \<Rightarrow> (if b then 1 else 0)
      | Inr (JInt i) \<Rightarrow> real_of_int i
      | Inr (JFloat r) \<Rightarrow> r
      | _ \<Rightarrow> 0)"

text \<open>
  \<open>manifest_list.sort(key=lambda e: e["filename"])\<close>. The keys are computed first.
  A list of at most one entry is not compared at all. Strings compare with strings (by
  code point, which is the byte order of their UTF-8 text) and numbers with numbers; the
  sort is stable. Any other pair raises TypeError, and a sort of two or more entries
  whose keys are not all strings or all numbers meets such a pair. (List keys would
  compare with each other, but a list is never a key of the dictionary.)
\<close>

definition sort_by_filename :: "json list \<Rightarrow> error + json list" where
  "sort_by_filename es =
     (case sort_keys es of
        Inl x \<Rightarrow> Inl x
      | Inr ks \<Rightarrow>
          if length es \<le> 1 then Inr es
          else if list_all is_string ks then Inr (sort_key filename_str es)
          else if list_all is_number ks then Inr (sort_key filename_num es)
          else Inl TypeError)"

text \<open>
  The output directory: the manifest document, if there is one, and the tile images by
  file name. The manifest's name does not end in \<open>.png\<close>, so it is no tile's name.
\<close>

record fs =
  manifest_file :: "document option"
  tile_files :: "string \<rightharpoonup> image"

text \<open>
  The end of the run: \<open>list(tile_manifest.values())\<close>, sorted, written with
  \<open>open(manifest_path, "w")\<close>, which replaces the document. The sort comes before the
  file is opened.
\<close>

definition persist :: "manifest \<Rightarrow> fs \<Rightarrow> error + fs" where
  "persist m disk =
     (case sort_by_filename (map snd m) of
        Inl x \<Rightarrow> Inl x
      | Inr manifest_list \<Rightarrow> Inr (disk\<lparr>manifest_file := Some (Parsed (JArr manifest_list))\<rparr>))"

subsection \<open>The invariant of the dictionary\<close>

text \<open>
  Every entry is stored under the key its own file name gives: this is how the load
  stores an entry and how the tile loop does. Keys of a dictionary are distinct.
\<close>

definition entry_ok :: "pykey \<Rightarrow> json \<Rightarrow> bool" where
  "entry_ok k e =
     (case subscript_filename e of
        Inr v \<Rightarrow> to_key v = Some k
      | Inl _ \<Rightarrow> False)"

definition manifest_ok :: "manifest \<Rightarrow> bool" where
  "manifest_ok m \<longleftrightarrow> distinct (map fst m) \<and> list_all (\<lambda>(k, e). entry_ok k e) m"



section \<open>Pipeline driver\<close>

subsection \<open>File names and descriptors\<close>

function digits :: "nat \<Rightarrow> string" where
  "digits n =
     (if n < 10 then [char_of (48 + n)]
      else digits (n div 10) @ [char_of (48 + n mod 10)])"
  by pat_completeness auto
termination
  by (relation "measure id") auto

definition str_int :: "int \<Rightarrow> string" where
  "str_int i = (if i < 0 then CHR ''-'' # digits (nat (- i)) else digits (nat i))"

text \<open>The format \<open>:04d\<close>: zero-padded to four characters, the sign included.\<close>

definition zfill :: "nat \<Rightarrow> string \<Rightarrow> string" where
  "zfill n s = replicate (n - length s) (CHR ''0'') @ s"

definition fmt_04d :: "int \<Rightarrow> string" where
  "fmt_04d i =
     (if i < 0 then CHR ''-'' # zfill 3 (digits (nat (- i))) else zfill 4 (digits (nat i)))"

text \<open>\<open>int(target_res)\<close> truncates towards zero.\<close>

definition int_of_float :: "real \<Rightarrow> int" where
  "int_of_float r = (if 0 \<le> r then \<lfloor>r\<rfloor> else \<lceil>r\<rceil>)"

record config =
  in_stem :: string
  tile_size :: int
  target_res :: real
  base_url :: "string option"

definition tile_name :: "config \<Rightarrow> int \<Rightarrow> int \<Rightarrow> string" where
  "tile_name c ty tx =
     in_stem c @ ''_3857_res'' @ str_int (int_of_float (target_res c)) @ ''m_tile_y''
       @ fmt_04d ty @ ''_x'' @ fmt_04d tx @ ''.png''"

definition rstrip_slash :: "string \<Rightarrow> string" where
  "rstrip_slash s = rev (dropWhile (\<lambda>c. c = CHR ''/'') (rev s))"

definition tile_url :: "config \<Rightarrow> string \<Rightarrow> string" where
  "tile_url c rel_path =
     (case base_url c of
        None \<Rightarrow> rel_path
      | Some b \<Rightarrow> if b \<noteq> [] then rstrip_slash b @ ''/'' @ rel_path else rel_path)"

definition make_entry :: "string \<Rightarrow> string \<Rightarrow> real \<times> real \<times> real \<times> real \<Rightarrow> json" where
  "make_entry rel_path url bbox =
     (case bbox of (left3857, bottom3857, right3857, top3857) \<Rightarrow>
        JObj [(''filename'', JStr rel_path),
              (''url'', JStr url),
              (''bbox'', JArr [JFloat left3857, JFloat bottom3857, JFloat right3857, JFloat top3857]),
              (''crs'', JStr ''EPSG:3857'')])"

text \<open>\<open>tile_manifest[rel_path] = entry\<close>\<close>

definition upsert :: "string \<Rightarrow> json \<Rightarrow> manifest \<Rightarrow> manifest" where
  "upsert rel_path entry m = AList.update (KStr rel_path) entry m"

subsection \<open>The collaborators\<close>

text \<open>
  The reprojection view: its size, its transform and its windowed read, which returns
  the masked block or raises (\<open>None\<close>). The no-data value of the source reaches the
  pipeline only through the mask of the blocks read.
\<close>

record vrt =
  vrt_width :: int
  vrt_height :: int
  vrt_transform :: affine
  vrt_read :: "window \<Rightarrow> pixel list list option"

text \<open>
  What a run finds outside the output directory: the CRS of the opened source
  (\<open>None\<close> when it has none), the view the raster library gives for it (\<open>None\<close> when
  the library raises instead, at \<open>rasterio.open\<close> or at \<open>WarpedVRT\<close>), and whether
  saving an image under a name succeeds. A failed save leaves no file.
\<close>

record env =
  src_crs :: "string option"
  warped_vrt :: "vrt option"
  save_ok :: "string \<Rightarrow> bool"



subsection \<open>The tile loop\<close>

record state =
  tile_manifest :: manifest
  png_files :: "string \<rightharpoonup> image"
  tile_index :: int
  written :: "string list"

definition tile_entry :: "config \<Rightarrow> vrt \<Rightarrow> int \<Rightarrow> int \<Rightarrow> json" where
  "tile_entry c v ty tx =
     (let win = tile_window (vrt_width v) (vrt_height v) (tile_size c) ty tx;
          rel_path = tile_name c ty tx
      in make_entry rel_path (tile_url c rel_path) (tile_bbox (vrt_transform v) win))"

text \<open>
  The body of the loop for the tile \<open>(ty, tx)\<close>: the exception it raises, if any, and
  the state it leaves.
\<close>

definition process_tile :: "config \<Rightarrow> env \<Rightarrow> vrt \<Rightarrow> int \<times> int \<Rightarrow> state \<Rightarrow> error option \<times> state" where
  "process_tile c e v t st =
     (let ty = fst t; tx = snd t;
          st1 = st\<lparr>tile_index := tile_index st + 1\<rparr>;
          win = tile_window (vrt_width v) (vrt_height v) (tile_size c) ty tx
      in if skipped win then (None, st1)
         else
           let rel_path = tile_name c ty tx;
               st2 = st1\<lparr>tile_manifest := upsert rel_path (tile_entry c v ty tx) (tile_manifest st1)\<rparr>
           in if png_files st2 rel_path \<noteq> None then (None, st2)
              else
                (case vrt_read v win of
                   None \<Rightarrow> (Some LibraryError, st2)
                 | Some block \<Rightarrow>
                     if save_ok e rel_path
                     then (None, st2\<lparr>png_files := (png_files st2)(rel_path \<mapsto> classify_block block),
                                     written := written st2 @ [rel_path]\<rparr>)
                     else (Some SaveError, st2)))"




subsection \<open>The run\<close>

text \<open>
  What a run leaves: the exception that ended it (\<open>None\<close> when it completed), the output
  directory, the names of the images it wrote, in order, and whether the manifest
  warning was printed.
\<close>

record result =
  outcome :: "error option"
  disk :: fs
  wrote :: "string list"
  manifest_warning :: bool


section \<open>The single-shot world-square reprojection\<close>





section \<open>Notions used in the statements and proofs\<close>








section \<open>Inputs for the concrete instances\<close>

text \<open>
  A small view of 5 by 3 pixels at 150 units per pixel, every pixel valid with value
  0.5; a configuration with tile edge 4, which gives the two tiles \<open>(0,0)\<close> and
  \<open>(0,1)\<close>; a source in EPSG:4326 whose images all save; and an output directory with
  no manifest and no image.
\<close>

definition demo_vrt :: vrt where
  "demo_vrt = \<lparr>vrt_width = 5, vrt_height = 3,
     vrt_transform = \<lparr>px_w = 150, x0 = 0, px_h = - 150, y0 = 450\<rparr>,
     vrt_read = (\<lambda>win. Some (replicate (nat (win_h win)) (replicate (nat (win_w win)) (Finite (1/2), False))))\<rparr>"

definition demo_config :: config where
  "demo_config = \<lparr>in_stem = ''msa'', tile_size = 4, target_res = 150, base_url = None\<rparr>"





text \<open>
  An output directory that a manifest and an image from another job are in already.
\<close>

definition old_disk :: fs where
  "old_disk =
     \<lparr>manifest_file = Some (Parsed (JArr [JObj [(''filename'', JStr ''old.png'')]])),
      tile_files = [''old.png'' \<mapsto> [[(1, 2, 3)]]]\<rparr>"

text \<open>
  The dictionary loaded from that directory, after two descriptors with the same file
  name and different bounding boxes were stored.
\<close>

definition two_boxes :: manifest where
  "two_boxes =
     upsert ''t.png'' (make_entry ''t.png'' ''t.png'' (0, 0, 2, 2))
       (upsert ''t.png'' (make_entry ''t.png'' ''t.png'' (0, 0, 1, 1))
         (fst (load_manifest (manifest_file old_disk))))"



section \<open>Properties of the planner\<close>

lemma n_tiles_pos_div:
  assumes "1 \<le> E"
  shows "n_tiles W E = (W - 1) div E + 1"
proof -
  have "W + E - 1 = (W - 1) + 1 * E" by simp
  then have "(W + E - 1) div E = (W - 1) div E + 1"
    using assms by (metis div_add_self2 mult.left_neutral not_one_le_zero)
  then show ?thesis by (simp add: n_tiles_def)
qed

lemma div_bounds:
  assumes "1 \<le> (E::int)"
  shows "(x div E) * E \<le> x" and "x < (x div E + 1) * E"
proof -
  have eq: "(x div E) * E + x mod E = x" by simp
  have lo: "0 \<le> x mod E" and hi: "x mod E < E" using assms by simp_all
  show "(x div E) * E \<le> x" using eq lo by linarith
  have "(x div E + 1) * E = (x div E) * E + E" by (simp add: algebra_simps)
  then show "x < (x div E + 1) * E" using eq hi by linarith
qed

lemma n_tiles_ceiling:
  assumes "1 \<le> E"
  shows "n_tiles W E = \<lceil>real_of_int W / real_of_int E\<rceil>"
proof -
  define q where "q = (W - 1) div E"
  have lo: "q * E \<le> W - 1" and hi: "W - 1 < (q + 1) * E"
    using div_bounds[OF assms, of "W - 1"] by (simp_all add: q_def)
  have E: "0 < real_of_int E" using assms by simp
  have "real_of_int (q * E) < real_of_int W" using lo by linarith
  then have 1: "real_of_int q < real_of_int W / real_of_int E"
    using E by (simp add: pos_less_divide_eq)
  have "real_of_int W \<le> real_of_int ((q + 1) * E)" using hi by linarith
  then have 2: "real_of_int W / real_of_int E \<le> real_of_int (q + 1)"
    using E by (simp add: pos_divide_le_eq)
  have "\<lceil>real_of_int W / real_of_int E\<rceil> = q + 1"
    using 1 2 by (intro ceiling_unique) simp_all
  then show ?thesis using n_tiles_pos_div[OF assms, of W] by (simp add: q_def)
qed

lemma tile_in_grid:
  assumes "1 \<le> E" "0 \<le> tx" "tx \<le> n_tiles W E - 1"
  shows "tx * E < W"
proof -
  have "tx \<le> (W - 1) div E" using assms n_tiles_pos_div[of E W] by simp
  then have "tx * E \<le> ((W - 1) div E) * E" using assms by (simp add: mult_right_mono)
  also have "\<dots> \<le> W - 1" using div_bounds(1)[OF assms(1)] .
  finally show ?thesis by simp
qed

lemma pixel_tile:
  assumes "1 \<le> E" "0 \<le> x" "x < W"
  shows "0 \<le> x div E" and "x div E \<le> n_tiles W E - 1"
    and "(x div E) * E \<le> x" and "x < (x div E) * E + min E (W - (x div E) * E)"
proof -
  show "0 \<le> x div E" using assms by (simp add: pos_imp_zdiv_nonneg_iff)
  have "x \<le> W - 1" using assms by simp
  then have "x div E \<le> (W - 1) div E" using assms by (simp add: zdiv_mono1)
  then show "x div E \<le> n_tiles W E - 1" using n_tiles_pos_div[OF assms(1), of W] by simp
  show "(x div E) * E \<le> x" using div_bounds(1)[OF assms(1)] .
  have "x < (x div E + 1) * E" using div_bounds(2)[OF assms(1)] .
  then show "x < (x div E) * E + min E (W - (x div E) * E)"
    using assms by (simp add: algebra_simps min_def)
qed

lemma interval_tile_unique:
  assumes "1 \<le> (E::int)" "t * E \<le> x" "x < t * E + min E w"
  shows "t = x div E"
proof -
  have "x < t * E + E" using assms by simp
  then have "x - t * E < E" by simp
  moreover have "0 \<le> x - t * E" using assms by simp
  moreover have "x = E * t + (x - t * E)" by (simp add: algebra_simps)
  ultimately show ?thesis using int_div_pos_eq[of x E t "x - t * E"] by simp
qed

lemma tile_coords_product: "tile_coords ny nx = List.product [0..ny - 1] [0..nx - 1]"
  by (simp add: tile_coords_def product_concat_map)

lemma length_tile_coords: "length (tile_coords ny nx) = nat ny * nat nx"
  by (simp add: tile_coords_product)

lemma distinct_tile_coords: "distinct (tile_coords ny nx)"
  by (simp add: tile_coords_product distinct_product)

lemma set_tile_coords: "set (tile_coords ny nx) = {0..ny - 1} \<times> {0..nx - 1}"
  by (auto simp: tile_coords_def)

lemma window_pixels_iff:
  "(x, y) \<in> window_pixels (tile_window W H E ty tx) \<longleftrightarrow>
     tx * E \<le> x \<and> x < tx * E + min E (W - tx * E) \<and>
     ty * E \<le> y \<and> y < ty * E + min E (H - ty * E)"
  by (auto simp: window_pixels_def tile_window_def Let_def)

lemma window_pixels_tile:
  assumes "1 \<le> E" "(x, y) \<in> window_pixels (tile_window W H E ty tx)"
  shows "tx = x div E" and "ty = y div E"
  using assms interval_tile_unique[of E tx x "W - tx * E"]
    interval_tile_unique[of E ty y "H - ty * E"]
  by (simp_all add: window_pixels_iff)

lemma window_positive:
  assumes "1 \<le> W" "1 \<le> H" "1 \<le> E"
    and "(ty, tx) \<in> set (tile_coords (n_tiles H E) (n_tiles W E))"
  shows "1 \<le> win_w (tile_window W H E ty tx)" and "1 \<le> win_h (tile_window W H E ty tx)"
proof -
  have tx: "0 \<le> tx" "tx \<le> n_tiles W E - 1" and ty: "0 \<le> ty" "ty \<le> n_tiles H E - 1"
    using assms(4) by (simp_all add: set_tile_coords)
  have "tx * E < W" using tile_in_grid[OF assms(3) tx] .
  then show "1 \<le> win_w (tile_window W H E ty tx)"
    using assms(3) by (simp add: tile_window_def Let_def)
  have "ty * E < H" using tile_in_grid[OF assms(3) ty] .
  then show "1 \<le> win_h (tile_window W H E ty tx)"
    using assms(3) by (simp add: tile_window_def Let_def)
qed

text \<open>
  Claim C2 (tiling completeness). For a virtual raster of width \<open>W \<ge> 1\<close> and height
  \<open>H \<ge> 1\<close> and a tile edge \<open>E \<ge> 1\<close>, the loop enumerates exactly
  \<open>ceil(W/E) * ceil(H/E)\<close> tile coordinates, each once; the tile \<open>(row, col)\<close> gets the
  window \<open>(col*E, row*E, min(E, W - col*E), min(E, H - row*E))\<close>; the pixels of the
  windows that are not skipped are exactly \<open>[0,W) \<times> [0,H)\<close>; and no two windows share a
  pixel.
\<close>

theorem tiling_completeness:
  assumes "1 \<le> W" and "1 \<le> H" and "1 \<le> E"
  shows "length (tile_coords (n_tiles H E) (n_tiles W E)) =
           nat (\<lceil>real_of_int W / real_of_int E\<rceil> * \<lceil>real_of_int H / real_of_int E\<rceil>)
       \<and> distinct (tile_coords (n_tiles H E) (n_tiles W E))
       \<and> (\<forall>(ty, tx) \<in> set (tile_coords (n_tiles H E) (n_tiles W E)).
            tile_window W H E ty tx =
              \<lparr>col_off = tx * E, row_off = ty * E,
               win_w = min E (W - tx * E), win_h = min E (H - ty * E)\<rparr>)
       \<and> (\<Union>(ty, tx) \<in> {c \<in> set (tile_coords (n_tiles H E) (n_tiles W E)).
                          \<not> skipped (tile_window W H E (fst c) (snd c))}.
            window_pixels (tile_window W H E ty tx)) = {0..<W} \<times> {0..<H}
       \<and> (\<forall>c1 \<in> set (tile_coords (n_tiles H E) (n_tiles W E)).
          \<forall>c2 \<in> set (tile_coords (n_tiles H E) (n_tiles W E)). c1 \<noteq> c2 \<longrightarrow>
            window_pixels (tile_window W H E (fst c1) (snd c1)) \<inter>
            window_pixels (tile_window W H E (fst c2) (snd c2)) = {})"
proof -
  let ?cs = "tile_coords (n_tiles H E) (n_tiles W E)"
  have nW: "0 \<le> n_tiles W E" and nH: "0 \<le> n_tiles H E"
    using assms n_tiles_pos_div[of E] by (simp_all add: pos_imp_zdiv_nonneg_iff)
  have len: "length ?cs = nat (\<lceil>real_of_int W / real_of_int E\<rceil> * \<lceil>real_of_int H / real_of_int E\<rceil>)"
    using nW nH n_tiles_ceiling[OF assms(3)]
    by (simp add: length_tile_coords nat_mult_distrib mult.commute)
  have win: "\<forall>(ty, tx) \<in> set ?cs. tile_window W H E ty tx =
              \<lparr>col_off = tx * E, row_off = ty * E,
               win_w = min E (W - tx * E), win_h = min E (H - ty * E)\<rparr>"
    by (simp add: tile_window_def Let_def)
  have cover: "(\<Union>(ty, tx) \<in> {c \<in> set ?cs. \<not> skipped (tile_window W H E (fst c) (snd c))}.
            window_pixels (tile_window W H E ty tx)) = {0..<W} \<times> {0..<H}" (is "?L = ?R")
  proof (intro set_eqI iffI)
    fix p assume "p \<in> ?L"
    then obtain ty tx where c: "(ty, tx) \<in> set ?cs"
      and p: "p \<in> window_pixels (tile_window W H E ty tx)" by auto
    obtain x y where xy: "p = (x, y)" by (cases p)
    have tx: "0 \<le> tx" and ty: "0 \<le> ty" using c by (simp_all add: set_tile_coords)
    have "0 \<le> tx * E" "0 \<le> ty * E" using tx ty assms by simp_all
    then show "p \<in> ?R" using p xy by (auto simp: window_pixels_iff)
  next
    fix p assume pR: "p \<in> ?R"
    obtain x y where xy: "p = (x, y)" by (cases p)
    have x: "0 \<le> x" "x < W" and y: "0 \<le> y" "y < H" using pR xy by simp_all
    let ?tx = "x div E" and ?ty = "y div E"
    have c: "(?ty, ?tx) \<in> set ?cs"
      using pixel_tile(1,2)[OF assms(3) x] pixel_tile(1,2)[OF assms(3) y]
      by (simp add: set_tile_coords)
    have "\<not> skipped (tile_window W H E ?ty ?tx)"
      using window_positive[OF assms c] by (simp add: skipped_def)
    moreover have "(x, y) \<in> window_pixels (tile_window W H E ?ty ?tx)"
      using pixel_tile(3,4)[OF assms(3) x] pixel_tile(3,4)[OF assms(3) y]
      by (simp add: window_pixels_iff)
    ultimately show "p \<in> ?L" using c xy by force
  qed
  have disj: "\<forall>c1 \<in> set ?cs. \<forall>c2 \<in> set ?cs. c1 \<noteq> c2 \<longrightarrow>
            window_pixels (tile_window W H E (fst c1) (snd c1)) \<inter>
            window_pixels (tile_window W H E (fst c2) (snd c2)) = {}"
  proof (intro ballI impI)
    fix c1 c2 :: "int \<times> int"
    assume "c1 \<in> set ?cs" and "c2 \<in> set ?cs" and ne: "c1 \<noteq> c2"
    show "window_pixels (tile_window W H E (fst c1) (snd c1)) \<inter>
            window_pixels (tile_window W H E (fst c2) (snd c2)) = {}"
    proof (rule ccontr)
      assume "\<not> ?thesis"
      then obtain p where p1: "p \<in> window_pixels (tile_window W H E (fst c1) (snd c1))"
        and p2: "p \<in> window_pixels (tile_window W H E (fst c2) (snd c2))" by auto
      obtain x y where xy: "p = (x, y)" by (cases p)
      have "snd c1 = x div E" "fst c1 = y div E" "snd c2 = x div E" "fst c2 = y div E"
        using window_pixels_tile[OF assms(3)] p1 p2 xy by blast+
      then have "c1 = c2" by (simp add: prod_eq_iff)
      with ne show False by simp
    qed
  qed
  show ?thesis using len distinct_tile_coords win cover disj by blast
qed

theorem tiling_completeness_witness:
  "length (tile_coords (n_tiles 3 2) (n_tiles 5 2)) = 6
   \<and> tile_window 5 3 2 1 2 = \<lparr>col_off = 4, row_off = 2, win_w = 1, win_h = 1\<rparr>
   \<and> (\<Union>(ty, tx) \<in> {c \<in> set (tile_coords (n_tiles 3 2) (n_tiles 5 2)).
                          \<not> skipped (tile_window 5 3 2 (fst c) (snd c))}.
            window_pixels (tile_window 5 3 2 ty tx)) = {0..<5} \<times> {0..<3}"
proof -
  have c: "(1, 2) \<in> set (tile_coords (n_tiles 3 2) (n_tiles 5 2))"
    by (simp add: set_tile_coords n_tiles_def)
  have "\<lceil>5 / (2::real)\<rceil> = 3" "\<lceil>3 / (2::real)\<rceil> = 2" by (simp_all add: ceiling_eq_iff)
  then show ?thesis using tiling_completeness[of 5 3 2] c by auto
qed

section \<open>Properties of the classifier\<close>

lemma ocean_color_hex: "hex_to_rgb ''#1f78b4'' = Some ocean_color"
  by (simp add: hex_to_rgb_def hex_digit_def ocean_color_def)

lemma palette_hex: "map hex_to_rgb hex_colors = map Some palette"
  by (simp add: hex_to_rgb_def hex_digit_def hex_colors_def palette_def)














section \<open>Properties of the tile loop\<close>

lemma map_of_upsert: "map_of (upsert n e m) (KStr n) = Some e"
  by (simp add: upsert_def update_conv')

text \<open>
  Claim C10 (the skip branch is unreachable). For a view of width and height at least 1
  and a tile edge of at least 1, every tile coordinate the loop enumerates has a window
  of width and height at least 1, so the guard \<open>w <= 0 or h <= 0\<close> is never taken,
  and the loop body stores the tile's descriptor in the in-memory manifest under the
  tile's file name.
\<close>

theorem skip_branch_unreachable:
  assumes "1 \<le> vrt_width v" and "1 \<le> vrt_height v" and "1 \<le> tile_size c"
    and "(ty, tx) \<in> set (tile_coords (n_tiles (vrt_height v) (tile_size c))
                                      (n_tiles (vrt_width v) (tile_size c)))"
  shows "n_tiles (vrt_width v) (tile_size c)
           = \<lceil>real_of_int (vrt_width v) / real_of_int (tile_size c)\<rceil>
       \<and> n_tiles (vrt_height v) (tile_size c)
           = \<lceil>real_of_int (vrt_height v) / real_of_int (tile_size c)\<rceil>
       \<and> win_w (tile_window (vrt_width v) (vrt_height v) (tile_size c) ty tx)
           = min (tile_size c) (vrt_width v - tx * tile_size c)
       \<and> win_h (tile_window (vrt_width v) (vrt_height v) (tile_size c) ty tx)
           = min (tile_size c) (vrt_height v - ty * tile_size c)
       \<and> 1 \<le> win_w (tile_window (vrt_width v) (vrt_height v) (tile_size c) ty tx)
       \<and> 1 \<le> win_h (tile_window (vrt_width v) (vrt_height v) (tile_size c) ty tx)
       \<and> \<not> skipped (tile_window (vrt_width v) (vrt_height v) (tile_size c) ty tx)
       \<and> map_of (tile_manifest (snd (process_tile c e v (ty, tx) st))) (KStr (tile_name c ty tx))
           = Some (tile_entry c v ty tx)"
proof -
  let ?win = "tile_window (vrt_width v) (vrt_height v) (tile_size c) ty tx"
  have ceil: "n_tiles (vrt_width v) (tile_size c)
           = \<lceil>real_of_int (vrt_width v) / real_of_int (tile_size c)\<rceil>"
    "n_tiles (vrt_height v) (tile_size c)
           = \<lceil>real_of_int (vrt_height v) / real_of_int (tile_size c)\<rceil>"
    using n_tiles_ceiling[OF assms(3)] by blast+
  have size: "win_w ?win = min (tile_size c) (vrt_width v - tx * tile_size c)"
    "win_h ?win = min (tile_size c) (vrt_height v - ty * tile_size c)"
    by (simp_all add: tile_window_def Let_def)
  have pos: "1 \<le> win_w ?win" "1 \<le> win_h ?win"
    using window_positive[OF assms] by simp_all
  then have ns: "\<not> skipped ?win" by (simp add: skipped_def)
  have "map_of (tile_manifest (snd (process_tile c e v (ty, tx) st))) (KStr (tile_name c ty tx))
           = Some (tile_entry c v ty tx)"
    using ns by (simp add: process_tile_def Let_def map_of_upsert split: option.splits)
  then show ?thesis using ceil size pos ns by blast
qed

theorem skip_branch_unreachable_witness:
  "win_w (tile_window 5 3 4 0 1) = 1 \<and> win_h (tile_window 5 3 4 0 1) = 3
   \<and> \<not> skipped (tile_window 5 3 4 0 1)"
proof -
  have c: "(0, 1) \<in> set (tile_coords (n_tiles (vrt_height demo_vrt) (tile_size demo_config))
                                      (n_tiles (vrt_width demo_vrt) (tile_size demo_config)))"
    by (simp add: set_tile_coords n_tiles_def demo_vrt_def demo_config_def)
  have "1 \<le> vrt_width demo_vrt" "1 \<le> vrt_height demo_vrt" "1 \<le> tile_size demo_config"
    by (simp_all add: demo_vrt_def demo_config_def)
  from skip_branch_unreachable[OF this c]
  show ?thesis by (simp add: demo_vrt_def demo_config_def tile_window_def skipped_def)
qed

text \<open>
  Claim C4 as stated fails: a raster 2048 wide and 1024 high with tile edge 1024 has one
  row of tiles, \<open>(0,0)\<close> and \<open>(0,1)\<close>; the coordinate \<open>(1,1)\<close> is not enumerated, and
  the window formula at \<open>(1,1)\<close> gives height 0, which the guard would skip.
\<close>

theorem tiling_scenario_counterexample:
  "tile_coords (n_tiles 1024 1024) (n_tiles 2048 1024) = [(0, 0), (0, 1)]
   \<and> (1, 1) \<notin> set (tile_coords (n_tiles 1024 1024) (n_tiles 2048 1024))
   \<and> win_h (tile_window 2048 1024 1024 1 1) = 0
   \<and> skipped (tile_window 2048 1024 1024 1 1)"
  by (simp add: tile_coords_def n_tiles_def upto.simps tile_window_def skipped_def)

text \<open>
  Claim C4, amended: for a raster 2048 wide and 2048 high with tile edge 1024 the loop
  yields the coordinates \<open>(0,0), (0,1), (1,0), (1,1)\<close>; the window of \<open>(1,1)\<close> is
  \<open>(col_off = 1024, row_off = 1024, width = 1024, height = 1024)\<close>, not clipped, and its
  bounding box \<open>(left, bottom, right, top)\<close> is the view's transform applied to the pixel
  corners \<open>(1024, 1024)\<close> and \<open>(2048, 2048)\<close>.
\<close>

theorem tiling_scenario_square:
  "tile_coords (n_tiles 2048 1024) (n_tiles 2048 1024) = [(0, 0), (0, 1), (1, 0), (1, 1)]
   \<and> tile_window 2048 2048 1024 1 1 = \<lparr>col_off = 1024, row_off = 1024, win_w = 1024, win_h = 1024\<rparr>
   \<and> \<not> skipped (tile_window 2048 2048 1024 1 1)
   \<and> tile_bbox t (tile_window 2048 2048 1024 1 1) =
        (fst (apply_affine t (1024, 1024)), snd (apply_affine t (2048, 2048)),
         fst (apply_affine t (2048, 2048)), snd (apply_affine t (1024, 1024)))"
  by (simp add: tile_coords_def n_tiles_def upto.simps tile_window_def skipped_def
      tile_bbox_def array_bounds_def window_transform_def apply_affine_def algebra_simps)

section \<open>Properties of the manifest store and the run\<close>














lemma entry_ok_key: "entry_ok k e \<Longrightarrow> entry_ok k' e \<Longrightarrow> k = k'"
  by (auto simp: entry_ok_def split: sum.splits)

lemma manifest_ok_entries:
  assumes "manifest_ok m"
  shows "distinct (map snd m)" and "\<forall>(k, e) \<in> set m. entry_ok k e"
proof -
  show ok: "\<forall>(k, e) \<in> set m. entry_ok k e"
    using assms by (auto simp: manifest_ok_def list_all_iff)
  have "inj_on snd (set m)"
  proof (rule inj_onI)
    fix p q assume p: "p \<in> set m" and q: "q \<in> set m" and eq: "snd p = snd q"
    have "entry_ok (fst p) (snd p)" "entry_ok (fst q) (snd q)" using ok p q by auto
    then have "fst p = fst q" using eq entry_ok_key by metis
    then show "p = q" using eq by (simp add: prod_eq_iff)
  qed
  moreover have "distinct m" using assms by (simp add: manifest_ok_def distinct_map)
  ultimately show "distinct (map snd m)" by (simp add: distinct_map)
qed

lemma set_update_subset: "set (AList.update k v m) \<subseteq> insert (k, v) (set m)"
  by (induction m) auto

lemma manifest_ok_update:
  assumes "manifest_ok m" "entry_ok k e"
  shows "manifest_ok (AList.update k e m)"
proof -
  have "distinct (map fst (AList.update k e m))"
    using assms by (simp add: manifest_ok_def distinct_update)
  moreover have "\<forall>p \<in> set (AList.update k e m). entry_ok (fst p) (snd p)"
  proof
    fix p assume "p \<in> set (AList.update k e m)"
    then have "p = (k, e) \<or> p \<in> set m" using set_update_subset[of k e m] by blast
    then show "entry_ok (fst p) (snd p)"
      using assms by (auto simp: manifest_ok_def list_all_iff)
  qed
  ultimately show ?thesis by (auto simp: manifest_ok_def list_all_iff)
qed

lemma manifest_ok_load_entries:
  "manifest_ok m \<Longrightarrow> manifest_ok (fst (load_entries xs m))"
proof (induction xs arbitrary: m)
  case Nil
  then show ?case by simp
next
  case (Cons x xs)
  show ?case
  proof (cases "get_filename x")
    case None
    then show ?thesis using Cons.prems by simp
  next
    case (Some fn)
    show ?thesis
    proof (cases "truthy fn")
      case False
      then show ?thesis using Some Cons by simp
    next
      case True
      show ?thesis
      proof (cases "to_key fn")
        case None
        then show ?thesis using Some True Cons.prems by simp
      next
        case (Some k)
        have "subscript_filename x = Inr fn"
          using \<open>get_filename x = Some fn\<close> True
          by (auto simp: get_filename_def subscript_filename_def truthy_def
              split: json.splits option.splits)
        then have "entry_ok k x" using True Some by (simp add: entry_ok_def)
        then have "manifest_ok (AList.update k x m)"
          using Cons.prems manifest_ok_update by blast
        then show ?thesis
          using Cons.IH \<open>get_filename x = Some fn\<close> True Some by simp
      qed
    qed
  qed
qed

lemma manifest_ok_empty: "manifest_ok []"
  by (simp add: manifest_ok_def)

lemma manifest_ok_load: "manifest_ok (fst (load_manifest file))"
  using manifest_ok_load_entries[OF manifest_ok_empty]
  by (auto simp: load_manifest_def load_document_def manifest_ok_empty
      split: option.splits document.splits json.splits)


lemma entry_ok_make_entry: "entry_ok (KStr n) (make_entry n u b)"
  by (cases b) (simp add: entry_ok_def make_entry_def subscript_filename_def to_key_def)
















lemma sort_by_filename_props:
  assumes "sort_by_filename es = Inr l"
  shows "set l = set es" and "distinct es \<Longrightarrow> distinct l" and "length l = length es"
  using assms
  by (auto simp: sort_by_filename_def split: sum.splits if_splits)



lemma manifest_ok_same_key:
  assumes "manifest_ok m" "(k, e) \<in> set m" "(k, e') \<in> set m"
  shows "e = e'"
  using assms by (metis manifest_ok_def map_of_is_SomeI option.inject)
























lemma filter_key_single:
  assumes "distinct (map fst m)" "map_of m k = Some v"
  shows "filter (\<lambda>p. fst p = k) m = [(k, v)]"
  using assms
proof (induction m)
  case Nil
  then show ?case by simp
next
  case (Cons p m)
  show ?case
  proof (cases "fst p = k")
    case True
    have "fst p \<notin> fst ` set m" using Cons.prems(1) by simp
    then have "\<forall>q \<in> set m. fst q \<noteq> k" using True by (metis imageI)
    then have "filter (\<lambda>p. fst p = k) m = []" by (simp add: filter_empty_conv)
    moreover have "p = (k, v)" using True Cons.prems(2) by (cases p) simp
    ultimately show ?thesis by simp
  next
    case False
    then show ?thesis using Cons by (cases p) auto
  qed
qed

lemma sort_by_filename_sorted:
  assumes "sort_by_filename es = Inr l" "\<exists>e \<in> set es. is_string (projr (subscript_filename e))"
  shows "sorted (map filename_str l)"
proof -
  from assms(1) obtain ks where ks: "sort_keys es = Inr ks"
    by (auto simp: sort_by_filename_def split: sum.splits)
  show ?thesis
  proof (cases "length es \<le> 1")
    case True
    then have "l = es" using assms(1) ks by (simp add: sort_by_filename_def)
    then show ?thesis using True by (cases es) simp_all
  next
    case long: False
    show ?thesis
    proof (cases "list_all is_string ks")
      case True
      then show ?thesis using assms(1) ks long by (auto simp: sort_by_filename_def sorted_sort_key)
    next
      case False
      have kse: "ks = map (\<lambda>e. projr (subscript_filename e)) es"
        using ks by (induction es arbitrary: ks) (auto split: sum.splits)
      from assms(2) obtain e where e: "e \<in> set es" "is_string (projr (subscript_filename e))"
        by blast
      then have "\<not> is_number (projr (subscript_filename e))"
        by (auto simp: is_string_def is_number_def split: json.splits)
      then have "\<not> list_all is_number ks" using e kse by (auto simp: list_all_iff)
      then show ?thesis using assms(1) ks long False by (simp add: sort_by_filename_def)
    qed
  qed
qed

text \<open>
  Claim C7 (manifest key uniqueness and sorted persistence). Storing two descriptors with
  the same file name and different bounding boxes into a dictionary of the program, and
  persisting it, writes a document that has exactly one entry with that file name, the
  later descriptor; the document is one list, it holds the values of the whole mapping,
  each once, sorted by file name, and it replaces the manifest document that was there,
  with the tile images untouched. The hypothesis \<open>manifest_ok\<close> holds of every
  dictionary the program builds (\<open>manifest_ok_load\<close>, \<open>manifest_ok_upsert_all\<close>).
\<close>

theorem manifest_key_uniqueness:
  assumes ok: "manifest_ok m"
    and p: "persist (upsert f (make_entry f u2 b2) (upsert f (make_entry f u1 b1) m)) disk0 = Inr disk1"
  shows "\<exists>l. manifest_file disk1 = Some (Parsed (JArr l))
           \<and> tile_files disk1 = tile_files disk0
           \<and> filter (\<lambda>e. subscript_filename e = Inr (JStr f)) l = [make_entry f u2 b2]
           \<and> set l = snd ` set (upsert f (make_entry f u2 b2) (upsert f (make_entry f u1 b1) m))
           \<and> length l = length (upsert f (make_entry f u2 b2) (upsert f (make_entry f u1 b1) m))
           \<and> distinct l
           \<and> sorted (map filename_str l)"
proof -
  let ?e1 = "make_entry f u1 b1" and ?e2 = "make_entry f u2 b2"
  let ?m = "upsert f ?e2 (upsert f ?e1 m)"
  let ?es = "map snd ?m"
  let ?P = "\<lambda>e. subscript_filename e = Inr (JStr f)"
  from p obtain l where l: "sort_by_filename ?es = Inr l"
    and d1: "disk1 = disk0\<lparr>manifest_file := Some (Parsed (JArr l))\<rparr>"
    by (auto simp: persist_def split: sum.splits)
  have okm: "manifest_ok ?m"
    using ok by (simp add: upsert_def manifest_ok_update entry_ok_make_entry)
  have look: "map_of ?m (KStr f) = Some ?e2" by (simp add: upsert_def update_conv')
  have sub2: "subscript_filename ?e2 = Inr (JStr f)"
    by (cases b2) (simp add: make_entry_def subscript_filename_def)
  have P_key: "?P (snd q) \<longleftrightarrow> fst q = KStr f" if q: "q \<in> set ?m" for q
  proof
    assume "?P (snd q)"
    moreover have "entry_ok (fst q) (snd q)" using manifest_ok_entries(2)[OF okm] q by auto
    ultimately show "fst q = KStr f" by (simp add: entry_ok_def to_key_def)
  next
    assume k: "fst q = KStr f"
    have "(KStr f, ?e2) \<in> set ?m" using look by (rule map_of_SomeD)
    moreover have "(KStr f, snd q) \<in> set ?m" using q k by (metis prod.collapse)
    ultimately have "snd q = ?e2" using manifest_ok_same_key[OF okm] by blast
    then show "?P (snd q)" using sub2 by simp
  qed
  have "filter ?P ?es = map snd (filter (\<lambda>q. ?P (snd q)) ?m)" by (simp add: filter_map comp_def)
  also have "filter (\<lambda>q. ?P (snd q)) ?m = filter (\<lambda>q. fst q = KStr f) ?m"
    using P_key by (intro filter_cong) auto
  also have "\<dots> = [(KStr f, ?e2)]"
    using okm look by (intro filter_key_single) (simp_all add: manifest_ok_def)
  finally have fes: "filter ?P ?es = [?e2]" by simp
  have fl: "filter ?P l = [?e2]"
  proof -
    from l obtain ks where ks: "sort_keys ?es = Inr ks"
      by (auto simp: sort_by_filename_def split: sum.splits)
    from l ks have "l = ?es \<or> l = sort_key filename_str ?es \<or> l = sort_key filename_num ?es"
      by (auto simp: sort_by_filename_def split: if_splits)
    then show ?thesis using fes by (auto simp: filter_sort)
  qed
  have "?e2 \<in> set ?es" using look by (metis map_of_SomeD image_eqI set_map snd_conv)
  moreover have "is_string (projr (subscript_filename ?e2))" using sub2 by (simp add: is_string_def)
  ultimately have srt: "sorted (map filename_str l)"
    using sort_by_filename_sorted[OF l] by blast
  note pr = sort_by_filename_props[OF l]
  have "distinct l" using pr(2) manifest_ok_entries(1)[OF okm] by blast
  then show ?thesis using d1 fl srt pr(1,3) by simp
qed

theorem manifest_key_uniqueness_witness:
  "persist two_boxes old_disk =
     Inr \<lparr>manifest_file = Some (Parsed (JArr
            [JObj [(''filename'', JStr ''old.png'')],
             make_entry ''t.png'' ''t.png'' (0, 0, 2, 2)])),
          tile_files = tile_files old_disk\<rparr>
   \<and> (\<exists>l. manifest_file (projr (persist two_boxes old_disk)) = Some (Parsed (JArr l))
          \<and> filter (\<lambda>e. subscript_filename e = Inr (JStr ''t.png'')) l
              = [make_entry ''t.png'' ''t.png'' (0, 0, 2, 2)]
          \<and> sorted (map filename_str l))"
proof -
  have "sort_by_filename (map snd two_boxes) =
      Inr [JObj [(''filename'', JStr ''old.png'')], make_entry ''t.png'' ''t.png'' (0, 0, 2, 2)]"
    by code_simp
  then have ev: "persist two_boxes old_disk =
     Inr \<lparr>manifest_file = Some (Parsed (JArr
            [JObj [(''filename'', JStr ''old.png'')],
             make_entry ''t.png'' ''t.png'' (0, 0, 2, 2)])),
          tile_files = tile_files old_disk\<rparr>"
    by (simp add: persist_def old_disk_def)
  have ok: "manifest_ok (fst (load_manifest (manifest_file old_disk)))"
    by (rule manifest_ok_load)
  have pp: "persist (upsert ''t.png'' (make_entry ''t.png'' ''t.png'' (0, 0, 2, 2))
       (upsert ''t.png'' (make_entry ''t.png'' ''t.png'' (0, 0, 1, 1))
         (fst (load_manifest (manifest_file old_disk))))) old_disk = Inr (projr (persist two_boxes old_disk))"
    using ev by (simp add: two_boxes_def)
  from manifest_key_uniqueness[OF ok pp] ev show ?thesis by blast
qed





end
